theory Spec2Isabelle
  imports Complex_Main
begin

section \<open>Values exchanged with the exchange's web site\<close>

text \<open>
  The client of \<^verbatim>\<open>src/nse_api.py\<close> receives JSON documents and hands Python
  objects back. A decoded JSON document is a \<open>jvalue\<close>: \<open>JNull\<close> is Python's
  \<^verbatim>\<open>None\<close>, an object is a Python \<^verbatim>\<open>dict\<close>, kept as an association list in
  insertion order (a dict has each key once: see \<open>wf_dict\<close>). A Python float is
  modelled by the rational number it denotes.
\<close>

datatype jvalue =
    JNull
  | JBool bool
  | JInt int
  | JFloat rat
  | JString string
  | JArray "jvalue list"
  | JObject "(string \<times> jvalue) list"

text \<open>The Python exceptions that the operations can raise.\<close>

datatype exn =
    KeyError string
  | TypeError
  | AttributeError
  | ValueError
  | JSONDecodeError
  | RequestException
  | Exception string

text \<open>
  What \<^verbatim>\<open>requests\<close> hands back for one GET: the status code, the body (\<^verbatim>\<open>.text\<close>)
  and the outcome of calling \<^verbatim>\<open>.json()\<close> on it (the decoded document, or the
  exception that decoding raises).
\<close>

record response =
  status_code :: int
  body :: string
  json :: "exn + jvalue"

type_synonym headers = "(string \<times> string) list"

text \<open>
  The session \<^verbatim>\<open>self.client\<close>: a GET of a URL with headers gives a response, or
  raises (connection refused, timeout); such an exception is caught nowhere.
\<close>

type_synonym session = "string \<Rightarrow> headers \<Rightarrow> exn + response"

type_synonym pydict = "(string \<times> jvalue) list"

subsection \<open>Sequencing of computations that may raise\<close>

fun bnd :: "exn + 'a \<Rightarrow> ('a \<Rightarrow> exn + 'b) \<Rightarrow> exn + 'b" where
  "bnd (Inl e) f = Inl e"
| "bnd (Inr x) f = f x"

text \<open>Evaluate in order, stop at the first exception.\<close>

fun sequence :: "(exn + 'a) list \<Rightarrow> exn + 'a list" where
  "sequence [] = Inr []"
| "sequence (Inl e # rs) = Inl e"
| "sequence (Inr x # rs) = bnd (sequence rs) (\<lambda>xs. Inr (x # xs))"

text \<open>
  A dict display \<^verbatim>\<open>{k1: e1, k2: e2, ...}\<close>: the values are evaluated in order and
  the first exception ends the evaluation.
\<close>

fun build_dict :: "(string \<times> (exn + jvalue)) list \<Rightarrow> exn + pydict" where
  "build_dict [] = Inr []"
| "build_dict ((k, Inl e) # kvs) = Inl e"
| "build_dict ((k, Inr v) # kvs) = bnd (build_dict kvs) (\<lambda>d. Inr ((k, v) # d))"

subsection \<open>Python's operations on decoded JSON\<close>

text \<open>\<^verbatim>\<open>v[k]\<close> with a string key.\<close>

fun py_getitem :: "jvalue \<Rightarrow> string \<Rightarrow> exn + jvalue" where
  "py_getitem (JObject kvs) k = (case map_of kvs k of None \<Rightarrow> Inl (KeyError k) | Some v \<Rightarrow> Inr v)"
| "py_getitem _ k = Inl TypeError"

text \<open>\<^verbatim>\<open>v.get(k, d)\<close>; only a dict has the method.\<close>

fun py_get :: "jvalue \<Rightarrow> string \<Rightarrow> jvalue \<Rightarrow> exn + jvalue" where
  "py_get (JObject kvs) k d = (case map_of kvs k of None \<Rightarrow> Inr d | Some v \<Rightarrow> Inr v)"
| "py_get _ k d = Inl AttributeError"

text \<open>\<^verbatim>\<open>v.keys()\<close>.\<close>

fun py_keys :: "jvalue \<Rightarrow> exn + string list" where
  "py_keys (JObject kvs) = Inr (map fst kvs)"
| "py_keys _ = Inl AttributeError"

text \<open>
  Iteration \<^verbatim>\<open>for x in v\<close>: a list gives its elements, a dict its keys, a string
  its characters; nothing else is iterable.
\<close>

fun py_iter :: "jvalue \<Rightarrow> exn + jvalue list" where
  "py_iter (JArray xs) = Inr xs"
| "py_iter (JObject kvs) = Inr (map (\<lambda>kv. JString (fst kv)) kvs)"
| "py_iter (JString s) = Inr (map (\<lambda>c. JString [c]) s)"
| "py_iter _ = Inl TypeError"

text \<open>Truth value of an object in a condition.\<close>

fun py_truthy :: "jvalue \<Rightarrow> bool" where
  "py_truthy JNull = False"
| "py_truthy (JBool b) = b"
| "py_truthy (JInt n) = (n \<noteq> 0)"
| "py_truthy (JFloat q) = (q \<noteq> 0)"
| "py_truthy (JString s) = (s \<noteq> [])"
| "py_truthy (JArray xs) = (xs \<noteq> [])"
| "py_truthy (JObject kvs) = (kvs \<noteq> [])"

text \<open>A chain of subscripts \<^verbatim>\<open>v[k1][k2]...\<close>.\<close>

fun py_path :: "jvalue \<Rightarrow> string list \<Rightarrow> exn + jvalue" where
  "py_path v [] = Inr v"
| "py_path v (k # ks) = bnd (py_getitem v k) (\<lambda>w. py_path w ks)"

text \<open>\<^verbatim>\<open>d[k] = v\<close> on a dict: an existing key keeps its place, a new one goes last.\<close>

fun dict_set :: "pydict \<Rightarrow> string \<Rightarrow> jvalue \<Rightarrow> pydict" where
  "dict_set [] k v = [(k, v)]"
| "dict_set ((k', v') # d) k v = (if k' = k then (k, v) # d else (k', v') # dict_set d k v)"

text \<open>A dict holds each key once.\<close>

definition wf_dict :: "(string \<times> 'a) list \<Rightarrow> bool" where
  "wf_dict kvs = distinct (map fst kvs)"

subsection \<open>Strings: \<^verbatim>\<open>str.upper\<close> and \<^verbatim>\<open>urllib.parse.quote\<close>\<close>

text \<open>
  Strings are sequences of bytes; \<open>upper\<close> is \<^verbatim>\<open>str.upper\<close> on ASCII text (index
  names and stock symbols are ASCII).
\<close>

definition upper_char :: "char \<Rightarrow> char" where
  "upper_char c =
     (case map_of (zip ''abcdefghijklmnopqrstuvwxyz'' ''ABCDEFGHIJKLMNOPQRSTUVWXYZ'') c of
        Some u \<Rightarrow> u
      | None \<Rightarrow> c)"

definition upper :: "string \<Rightarrow> string" where
  "upper s = map upper_char s"

text \<open>
  \<^verbatim>\<open>quote(s)\<close> with its default \<^verbatim>\<open>safe='/'\<close>: letters, digits and
  \<^verbatim>\<open>_.-~/\<close> stay, every other byte becomes \<^verbatim>\<open>%XX\<close>.
\<close>

definition always_safe :: "char \<Rightarrow> bool" where
  "always_safe c =
     (let n = (of_char c :: nat) in
        (65 \<le> n \<and> n \<le> 90) \<or> (97 \<le> n \<and> n \<le> 122) \<or> (48 \<le> n \<and> n \<le> 57)
        \<or> c \<in> set ''_.-~/'')"

definition hex_digit :: "nat \<Rightarrow> char" where
  "hex_digit n = ''0123456789ABCDEF'' ! (n mod 16)"

definition quote_char :: "char \<Rightarrow> string" where
  "quote_char c =
     (if always_safe c then [c]
      else [CHR ''%'', hex_digit ((of_char c :: nat) div 16), hex_digit ((of_char c :: nat) mod 16)])"

definition quote :: "string \<Rightarrow> string" where
  "quote s = concat (map quote_char s)"

section \<open>The client\<close>

definition HEADERS :: headers where
  "HEADERS =
     [(''User-Agent'', ''Mozilla/5.0 (Windows NT 10.0; Win64; x64) AppleWebKit/537.36 (KHTML, like Gecko) Chrome/93.0.4577.82 Safari/537.36 Edg/93.0.961.52''),
      (''X-Requested-With'', ''XMLHttpRequest'')]"

subsection \<open>\<^verbatim>\<open>get_indices\<close>\<close>

definition get_indices :: "session \<Rightarrow> exn + jvalue list" where
  "get_indices client =
     bnd (client ''https://www.nseindia.com/api/equity-master'' HEADERS) (\<lambda>r.
     bnd (json r) (\<lambda>response.
     bnd (py_keys response) (\<lambda>ks.
     bnd (sequence (map (\<lambda>symbols. bnd (py_getitem response symbols) py_iter) ks)) (\<lambda>xss.
     Inr (concat xss)))))"

subsection \<open>\<^verbatim>\<open>get_all_stocks\<close>\<close>

definition all_stocks_url :: "string \<Rightarrow> string" where
  "all_stocks_url index =
     ''https://www.nseindia.com/api/equity-stockIndices?index='' @ quote (upper index)"

text \<open>
  One round of the comprehension: the condition \<^verbatim>\<open>stock['symbol'] != index.upper()\<close>
  first, then the dict display; \<open>None\<close> when the row is filtered out.
\<close>

definition all_stocks_row :: "string \<Rightarrow> jvalue \<Rightarrow> exn + pydict option" where
  "all_stocks_row index stock =
     bnd (py_getitem stock ''symbol'') (\<lambda>s.
       if s \<noteq> JString (upper index) then
         bnd (build_dict
                [(''stock_symbol'', py_getitem stock ''symbol''),
                 (''company_name'',
                    bnd (py_get stock ''meta'' (JObject [])) (\<lambda>m. py_get m ''companyName'' JNull))])
             (\<lambda>d. Inr (Some d))
       else Inr None)"

definition get_all_stocks :: "session \<Rightarrow> string \<Rightarrow> exn + pydict list" where
  "get_all_stocks client index =
     bnd (client (all_stocks_url index) HEADERS) (\<lambda>r.
     bnd (json r) (\<lambda>j.
     bnd (py_getitem j ''data'') (\<lambda>response.
     bnd (py_iter response) (\<lambda>stocks.
     bnd (sequence (map (all_stocks_row index) stocks)) (\<lambda>rs.
     Inr (List.map_filter id rs))))))"

subsection \<open>\<^verbatim>\<open>index_data\<close>\<close>

definition index_data_url :: "string \<Rightarrow> string" where
  "index_data_url stock_index =
     ''https://www.nseindia.com/api/equity-stockIndices?index='' @ stock_index"

text \<open>The body of the loop for the row \<open>datum\<close> at position \<open>i\<close>.\<close>

definition index_data_row :: "jvalue \<Rightarrow> nat \<Rightarrow> jvalue \<Rightarrow> exn + pydict" where
  "index_data_row last_updated i datum =
     bnd (build_dict
            [(''symbol'', py_getitem datum ''symbol''),
             (''open'', py_getitem datum ''open''),
             (''dayHigh'', py_getitem datum ''dayHigh''),
             (''dayLow'', py_getitem datum ''dayLow''),
             (''lastPrice'', py_getitem datum ''lastPrice''),
             (''previousClose'', py_getitem datum ''previousClose''),
             (''change'', py_getitem datum ''change''),
             (''pChange'', py_getitem datum ''pChange''),
             (''52W_High'', py_getitem datum ''yearHigh''),
             (''52W_Low'', py_getitem datum ''yearLow''),
             (''totalTradedVolume'', py_getitem datum ''totalTradedVolume''),
             (''totalTradedValue'', py_getitem datum ''totalTradedValue''),
             (''perChange365d'', py_getitem datum ''perChange365d''),
             (''perChange30d'', py_getitem datum ''perChange30d''),
             (''last_updated_at'', Inr last_updated)])
         (\<lambda>temp_dict.
            if i \<noteq> 0 then
              bnd (py_getitem datum ''meta'') (\<lambda>m.
              bnd (py_get m ''companyName'' JNull) (\<lambda>c.
              Inr (dict_set temp_dict ''company_name'' c)))
            else Inr temp_dict)"

definition index_data :: "session \<Rightarrow> string \<Rightarrow> exn + pydict list option" where
  "index_data client stock_index =
     bnd (client (index_data_url stock_index) HEADERS) (\<lambda>response.
       if status_code response \<noteq> 200 then Inr None
       else
         bnd (json response) (\<lambda>j_response.
         bnd (py_getitem j_response ''timestamp'') (\<lambda>last_updated.
         bnd (py_getitem j_response ''data'') (\<lambda>data.
         bnd (py_iter data) (\<lambda>rows.
         bnd (sequence (map (\<lambda>(i, datum). index_data_row last_updated i datum)
                            (zip [0 ..< length rows] rows))) (\<lambda>result.
         Inr (Some result)))))))"

subsection \<open>\<^verbatim>\<open>get_stock_data\<close>\<close>

text \<open>
  The builtin \<^verbatim>\<open>round(x, 2)\<close>. On a float it rounds the exact value to the
  nearest multiple of 1/100, a tie going to the even neighbour; the float is modelled by
  the rational it denotes, so the result here is that multiple itself (its conversion back
  to the nearest binary float is not modelled). An int is returned as it is, a bool as
  the int 0 or 1, and any other object raises \<^verbatim>\<open>TypeError\<close>.
\<close>

definition round_half_even :: "rat \<Rightarrow> int" where
  "round_half_even q =
     (let f = \<lfloor>q\<rfloor>; d = q - of_int f in
        if d < 1 / 2 then f
        else if 1 / 2 < d then f + 1
        else if even f then f else f + 1)"

fun py_round2 :: "jvalue \<Rightarrow> exn + jvalue" where
  "py_round2 (JFloat q) = Inr (JFloat (of_int (round_half_even (q * 100)) / 100))"
| "py_round2 (JInt n) = Inr (JInt n)"
| "py_round2 (JBool b) = Inr (JInt (if b then 1 else 0))"
| "py_round2 _ = Inl TypeError"

definition stock_data_url :: "string \<Rightarrow> string" where
  "stock_data_url symbol = ''https://www.nseindia.com/api/quote-equity?symbol='' @ symbol"

definition stock_final_dict :: "jvalue \<Rightarrow> exn + pydict" where
  "stock_final_dict result =
     build_dict
       [(''symbol'', py_path result [''info'', ''symbol'']),
        (''company_name'', py_path result [''info'', ''companyName'']),
        (''industry'', bnd (py_getitem result ''info'') (\<lambda>i. py_get i ''industry'' JNull)),
        (''listingDate'', py_path result [''metadata'', ''listingDate'']),
        (''open_price'', py_path result [''priceInfo'', ''open'']),
        (''last_price'', py_path result [''priceInfo'', ''lastPrice'']),
        (''previous_close'', py_path result [''priceInfo'', ''previousClose'']),
        (''high_price'', py_path result [''priceInfo'', ''intraDayHighLow'', ''max'']),
        (''low_price'', py_path result [''priceInfo'', ''intraDayHighLow'', ''min'']),
        (''change'', bnd (py_path result [''priceInfo'', ''change'']) py_round2),
        (''pChange'', bnd (py_path result [''priceInfo'', ''pChange'']) py_round2),
        (''52w_high_date'', py_path result [''priceInfo'', ''weekHighLow'', ''maxDate'']),
        (''52w_high'', py_path result [''priceInfo'', ''weekHighLow'', ''max'']),
        (''52w_low_date'', py_path result [''priceInfo'', ''weekHighLow'', ''minDate'']),
        (''52w_low'', py_path result [''priceInfo'', ''weekHighLow'', ''min'']),
        (''total_traded_volume'', py_path result [''preOpenMarket'', ''totalTradedVolume'']),
        (''total_buy_quantity'', py_path result [''preOpenMarket'', ''totalBuyQuantity'']),
        (''total_sell_quantity'', py_path result [''preOpenMarket'', ''totalSellQuantity'']),
        (''last_update_time'', py_path result [''metadata'', ''lastUpdateTime''])]"

text \<open>
  The condition is \<^verbatim>\<open>response.status_code == 200 and response.json().get("info")\<close>:
  \<^verbatim>\<open>and\<close> does not decode the body unless the status is 200.
\<close>

definition get_stock_data :: "session \<Rightarrow> string \<Rightarrow> exn + pydict option" where
  "get_stock_data client symbol =
     bnd (client (stock_data_url symbol) HEADERS) (\<lambda>response.
       if status_code response = 200 then
         bnd (json response) (\<lambda>j.
         bnd (py_get j ''info'' JNull) (\<lambda>info.
           if py_truthy info then
             bnd (json response) (\<lambda>result.
             bnd (stock_final_dict result) (\<lambda>final_dict.
             Inr (Some final_dict)))
           else Inr None))
       else Inr None)"

section \<open>Tables: the fragment of pandas that \<^verbatim>\<open>get_historical_data\<close> uses\<close>

text \<open>
  A cell of a table: text, a number (of an \<^verbatim>\<open>int64\<close> or \<^verbatim>\<open>float64\<close> column,
  modelled by the rational it denotes; overflow, infinities and binary rounding are not
  modelled), a boolean, the missing value \<^verbatim>\<open>NaN\<close>, a \<^verbatim>\<open>datetime.date\<close> (year,
  month, day) or the missing date \<^verbatim>\<open>NaT\<close>. A table is the list of its columns in
  order, each with its name; its row index is not modelled.
\<close>

datatype cell =
    CStr string
  | CNum rat
  | CBool bool
  | CNaN
  | CDate int nat nat
  | CNaT

type_synonym dataframe = "(string \<times> cell list) list"

text \<open>More exceptions: those of the CSV reader.\<close>

datatype pd_error = EmptyDataError | ParserError | PdValueError | PdKeyError

subsection \<open>Characters\<close>

definition is_digit :: "char \<Rightarrow> bool" where
  "is_digit c = (let n = (of_char c :: nat) in 48 \<le> n \<and> n \<le> 57)"

definition digit_val :: "char \<Rightarrow> nat" where
  "digit_val c = (of_char c :: nat) - 48"

definition isspace_ascii :: "char \<Rightarrow> bool" where
  "isspace_ascii c = (let n = (of_char c :: nat) in n = 32 \<or> (9 \<le> n \<and> n \<le> 13))"

definition isblank :: "char \<Rightarrow> bool" where
  "isblank c = (let n = (of_char c :: nat) in n = 32 \<or> n = 9)"

definition lower_char :: "char \<Rightarrow> char" where
  "lower_char c =
     (case map_of (zip ''ABCDEFGHIJKLMNOPQRSTUVWXYZ'' ''abcdefghijklmnopqrstuvwxyz'') c of
        Some l \<Rightarrow> l
      | None \<Rightarrow> c)"

subsection \<open>The tokenizer of \<^verbatim>\<open>read_csv\<close>\<close>

text \<open>
  The state machine of the reader's tokenizer under the settings of the call
  \<^verbatim>\<open>pd.read_csv(StringIO(response.text), thousands=",")\<close>: delimiter \<^verbatim>\<open>,\<close>, quote
  character \<^verbatim>\<open>"\<close> doubled inside a quoted field, no escape and no comment character,
  blank lines skipped, lines ended by LF or CRLF.
\<close>

datatype tok_state =
    START_RECORD
  | WHITESPACE_LINE
  | START_FIELD
  | IN_FIELD
  | IN_QUOTED_FIELD
  | QUOTE_IN_QUOTED_FIELD
  | EAT_CRNL
  | EAT_CRNL_NOP

text \<open>
  The end of a line with the fields \<open>row\<close>, \<open>lines\<close> being the lines before it: from the
  third line on, a line longer than the one before is an error; from the second line
  on, a shorter one is filled up with empty fields.
\<close>

definition end_line :: "string list \<Rightarrow> string list list \<Rightarrow> pd_error + string list list" where
  "end_line row lines =
     (let ex_fields = (if lines = [] then 0 else length (last lines)) in
        if 2 \<le> length lines \<and> ex_fields < length row then Inl ParserError
        else if 1 \<le> length lines \<and> length row < ex_fields
          then Inr (lines @ [row @ replicate (ex_fields - length row) []])
        else Inr (lines @ [row]))"

definition tok_rank :: "tok_state \<Rightarrow> nat" where
  "tok_rank st =
     (case st of EAT_CRNL \<Rightarrow> 4 | EAT_CRNL_NOP \<Rightarrow> 4 | START_RECORD \<Rightarrow> 3
      | WHITESPACE_LINE \<Rightarrow> 2 | START_FIELD \<Rightarrow> 1 | _ \<Rightarrow> 0)"

text \<open>
  \<open>tokenize st ws fld row lines input\<close>: \<open>fld\<close> is the field being read,
  \<open>row\<close> the fields of the line being read, \<open>lines\<close> the finished lines and
  \<open>ws\<close> the blanks read since the start of a line that may turn out to be blank.
\<close>

function tokenize ::
  "tok_state \<Rightarrow> string \<Rightarrow> string \<Rightarrow> string list \<Rightarrow> string list list \<Rightarrow> string
     \<Rightarrow> pd_error + string list list" where
  "tokenize START_RECORD ws fld row lines [] = Inr lines"
| "tokenize WHITESPACE_LINE ws fld row lines [] = Inr lines"
| "tokenize EAT_CRNL_NOP ws fld row lines [] = Inr lines"
| "tokenize IN_QUOTED_FIELD ws fld row lines [] = Inl ParserError"
| "tokenize IN_FIELD ws fld row lines [] = end_line (row @ [fld]) lines"
| "tokenize START_FIELD ws fld row lines [] = end_line (row @ [fld]) lines"
| "tokenize QUOTE_IN_QUOTED_FIELD ws fld row lines [] = end_line (row @ [fld]) lines"
| "tokenize EAT_CRNL ws fld row lines [] = end_line row lines"
| "tokenize START_RECORD ws fld row lines (c # cs) =
     (if c = CHR 0x0A then tokenize START_RECORD [] [] [] lines cs
      else if c = CHR 0x0D then tokenize EAT_CRNL_NOP [] [] [] lines cs
      else if isblank c then tokenize WHITESPACE_LINE [c] [] [] lines cs
      else tokenize START_FIELD [] [] [] lines (c # cs))"
| "tokenize WHITESPACE_LINE ws fld row lines (c # cs) =
     (if c = CHR 0x0A then tokenize START_RECORD [] [] [] lines cs
      else if c = CHR 0x0D then tokenize EAT_CRNL_NOP [] [] [] lines cs
      else if isblank c then tokenize WHITESPACE_LINE (ws @ [c]) [] [] lines cs
      else tokenize START_FIELD [] [] [] lines (ws @ c # cs))"
| "tokenize START_FIELD ws fld row lines (c # cs) =
     (if c = CHR 0x0A then
        (case end_line (row @ [fld]) lines of
           Inl e \<Rightarrow> Inl e
         | Inr lines' \<Rightarrow> tokenize START_RECORD [] [] [] lines' cs)
      else if c = CHR 0x0D then tokenize EAT_CRNL [] [] (row @ [fld]) lines cs
      else if c = CHR 0x22 then tokenize IN_QUOTED_FIELD [] fld row lines cs
      else if c = CHR '','' then tokenize START_FIELD [] [] (row @ [fld]) lines cs
      else tokenize IN_FIELD [] (fld @ [c]) row lines cs)"
| "tokenize IN_FIELD ws fld row lines (c # cs) =
     (if c = CHR 0x0A then
        (case end_line (row @ [fld]) lines of
           Inl e \<Rightarrow> Inl e
         | Inr lines' \<Rightarrow> tokenize START_RECORD [] [] [] lines' cs)
      else if c = CHR 0x0D then tokenize EAT_CRNL [] [] (row @ [fld]) lines cs
      else if c = CHR '','' then tokenize START_FIELD [] [] (row @ [fld]) lines cs
      else tokenize IN_FIELD [] (fld @ [c]) row lines cs)"
| "tokenize IN_QUOTED_FIELD ws fld row lines (c # cs) =
     (if c = CHR 0x22 then tokenize QUOTE_IN_QUOTED_FIELD [] fld row lines cs
      else tokenize IN_QUOTED_FIELD [] (fld @ [c]) row lines cs)"
| "tokenize QUOTE_IN_QUOTED_FIELD ws fld row lines (c # cs) =
     (if c = CHR 0x22 then tokenize IN_QUOTED_FIELD [] (fld @ [c]) row lines cs
      else if c = CHR '','' then tokenize START_FIELD [] [] (row @ [fld]) lines cs
      else if c = CHR 0x0A then
        (case end_line (row @ [fld]) lines of
           Inl e \<Rightarrow> Inl e
         | Inr lines' \<Rightarrow> tokenize START_RECORD [] [] [] lines' cs)
      else if c = CHR 0x0D then tokenize EAT_CRNL [] [] (row @ [fld]) lines cs
      else tokenize IN_FIELD [] (fld @ [c]) row lines cs)"
| "tokenize EAT_CRNL ws fld row lines (c # cs) =
     (case end_line row lines of
        Inl e \<Rightarrow> Inl e
      | Inr lines' \<Rightarrow>
          if c = CHR 0x0A then tokenize START_RECORD [] [] [] lines' cs
          else if c = CHR '','' then tokenize START_FIELD [] [] [[]] lines' cs
          else tokenize START_RECORD [] [] [] lines' (c # cs))"
| "tokenize EAT_CRNL_NOP ws fld row lines (c # cs) =
     (if c = CHR 0x0A \<or> c = CHR '','' then tokenize START_RECORD [] [] [] lines cs
      else tokenize START_RECORD [] [] [] lines (c # cs))"
  by pat_completeness auto
termination
  by (relation "measures [\<lambda>(st, ws, fld, row, lines, input). length ws + length input,
                          \<lambda>(st, ws, fld, row, lines, input). tok_rank st,
                          \<lambda>(st, ws, fld, row, lines, input). length input]")
     (auto simp: tok_rank_def)

subsection \<open>Numerals in cells\<close>

text \<open>
  The reader's integer conversion with the thousands separator \<^verbatim>\<open>,\<close>: blanks, a
  sign, a digit, then digits and separators in any order, blanks.
\<close>

fun scan_int_digits :: "bool \<Rightarrow> nat \<Rightarrow> string \<Rightarrow> nat \<times> string" where
  "scan_int_digits tsep acc [] = (acc, [])"
| "scan_int_digits tsep acc (c # cs) =
     (if tsep \<and> c = CHR '','' then scan_int_digits tsep acc cs
      else if is_digit c then scan_int_digits tsep (acc * 10 + digit_val c) cs
      else (acc, c # cs))"

definition take_sign :: "string \<Rightarrow> bool \<times> string" where
  "take_sign s =
     (case s of
        c # cs \<Rightarrow> if c = CHR ''-'' then (True, cs) else if c = CHR ''+'' then (False, cs) else (False, s)
      | [] \<Rightarrow> (False, s))"

definition str_to_int :: "bool \<Rightarrow> string \<Rightarrow> int option" where
  "str_to_int tsep s =
     (let (neg, p) = take_sign (dropWhile isspace_ascii s) in
        case p of
          [] \<Rightarrow> None
        | c # cs \<Rightarrow>
            if is_digit c then
              (let (n, rest) = scan_int_digits tsep 0 p in
                 if dropWhile isspace_ascii rest = []
                 then Some (if neg then - int n else int n) else None)
            else None)"

text \<open>
  The reader's float conversion: blanks, a sign, digits (each may be followed by one
  separator), a fraction, an exponent, blanks; at least one digit before the exponent.
  The scanners return the digits read as a number, how many they were, and the rest.
\<close>

fun scan_float_digits :: "bool \<Rightarrow> nat \<Rightarrow> nat \<Rightarrow> string \<Rightarrow> nat \<times> nat \<times> string" where
  "scan_float_digits tsep acc k [] = (acc, k, [])"
| "scan_float_digits tsep acc k [c] =
     (if is_digit c then (acc * 10 + digit_val c, Suc k, []) else (acc, k, [c]))"
| "scan_float_digits tsep acc k (c # c' # cs) =
     (if is_digit c then
        (if tsep \<and> c' = CHR '','' then scan_float_digits tsep (acc * 10 + digit_val c) (Suc k) cs
         else scan_float_digits tsep (acc * 10 + digit_val c) (Suc k) (c' # cs))
      else (acc, k, c # c' # cs))"

definition scan_fraction :: "string \<Rightarrow> nat \<times> nat \<times> string" where
  "scan_fraction s =
     (case s of
        c # cs \<Rightarrow> if c = CHR ''.'' then scan_float_digits False 0 0 cs else (0, 0, s)
      | [] \<Rightarrow> (0, 0, s))"

definition scan_exponent :: "string \<Rightarrow> (int \<times> string) option" where
  "scan_exponent s =
     (case s of
        c # cs \<Rightarrow>
          if c = CHR ''e'' \<or> c = CHR ''E'' then
            (let (neg, p) = take_sign cs; (n, k, rest) = scan_float_digits False 0 0 p in
               if k = 0 then None else Some (if neg then - int n else int n, rest))
          else Some (0, s)
      | [] \<Rightarrow> Some (0, s))"

definition scale10 :: "rat \<Rightarrow> int \<Rightarrow> rat" where
  "scale10 q e = (if 0 \<le> e then q * 10 ^ nat e else q / 10 ^ nat (- e))"

definition str_to_float :: "bool \<Rightarrow> string \<Rightarrow> rat option" where
  "str_to_float tsep s =
     (let (neg, p) = take_sign (dropWhile isspace_ascii s);
          (n, k, p1) = scan_float_digits tsep 0 0 p;
          (f, kf, p2) = scan_fraction p1
      in if k + kf = 0 then None
         else
           (case scan_exponent p2 of
              None \<Rightarrow> None
            | Some (e, p3) \<Rightarrow>
                if dropWhile isspace_ascii p3 = [] then
                  (let m = of_nat n + of_nat f / 10 ^ kf in
                     Some (scale10 (if neg then - m else m) e))
                else None))"

subsection \<open>Inference of the type of a column\<close>

text \<open>The texts that the reader takes for a missing value.\<close>

definition na_values :: "string list" where
  "na_values =
     ([] # [''#N/A'', ''#N/A N/A'', ''#NA'', ''-1.#IND'', ''-1.#QNAN'', ''-NaN'', ''-nan'',
      ''1.#IND'', ''1.#QNAN'', ''<NA>'', ''N/A'', ''NA'', ''NULL'', ''NaN'', ''None'', ''n/a'',
      ''nan'', ''null''])"

definition is_na :: "string \<Rightarrow> bool" where
  "is_na s = (s \<in> set na_values)"

definition str_to_bool :: "string \<Rightarrow> bool option" where
  "str_to_bool s =
     (if s \<in> set [''True'', ''TRUE'', ''true''] then Some True
      else if s \<in> set [''False'', ''FALSE'', ''false''] then Some False
      else None)"

text \<open>
  The reader tries integers, then floats, then booleans on the whole column, with
  missing values let through, and keeps the texts when all three fail.
\<close>

definition infer_column :: "string list \<Rightarrow> cell list" where
  "infer_column ws =
     (if list_all (\<lambda>w. is_na w \<or> str_to_int True w \<noteq> None) ws then
        map (\<lambda>w. if is_na w then CNaN else CNum (of_int (the (str_to_int True w)))) ws
      else if list_all (\<lambda>w. is_na w \<or> str_to_float True w \<noteq> None) ws then
        map (\<lambda>w. if is_na w then CNaN else CNum (the (str_to_float True w))) ws
      else if list_all (\<lambda>w. is_na w \<or> str_to_bool w \<noteq> None) ws then
        map (\<lambda>w. if is_na w then CNaN else CBool (the (str_to_bool w))) ws
      else map (\<lambda>w. if is_na w then CNaN else CStr w) ws)"

subsection \<open>\<^verbatim>\<open>read_csv\<close>\<close>

definition nth_field :: "string list \<Rightarrow> nat \<Rightarrow> string" where
  "nth_field row j = (if j < length row then row ! j else [])"

text \<open>
  The first line names the columns. When the first data line has more fields than the
  header, the leading ones are the row index and not columns.
\<close>

definition read_csv :: "string \<Rightarrow> pd_error + dataframe" where
  "read_csv txt =
     (case tokenize START_RECORD [] [] [] [] txt of
        Inl e \<Rightarrow> Inl e
      | Inr [] \<Rightarrow> Inl EmptyDataError
      | Inr (header # rows) \<Rightarrow>
          (let field_count = (case rows of [] \<Rightarrow> length header | r # _ \<Rightarrow> length r);
               leading_cols = field_count - length header
           in Inr (map (\<lambda>j. (nth_field header j,
                               infer_column (map (\<lambda>r. nth_field r (leading_cols + j)) rows)))
                       [0 ..< length header])))"

section \<open>Inputs used as examples\<close>

text \<open>A body that maps category names to lists of index symbols.\<close>

definition categories :: "(string \<times> jvalue list) list \<Rightarrow> jvalue" where
  "categories cats = JObject (map (\<lambda>kv. (fst kv, JArray (snd kv))) cats)"

definition equity_master_body :: "(string \<times> jvalue list) list" where
  "equity_master_body = [(''A'', [JString ''X'', JString ''Y'']), (''B'', [JString ''Z''])]"

definition equity_master_session :: session where
  "equity_master_session url h =
     Inr \<lparr>status_code = 200, body = [], json = Inr (categories equity_master_body)\<rparr>"

text \<open>A session that answers every request with the given status and decoded body.\<close>

definition status_session :: "int \<Rightarrow> exn + jvalue \<Rightarrow> session" where
  "status_session code j url h =
     Inr \<lparr>status_code = code, body = ''Resource not found'', json = j\<rparr>"

text \<open>A constituents response: the index itself, then three stocks.\<close>

definition constituents_rows :: "jvalue list" where
  "constituents_rows =
     [JObject [(''symbol'', JString ''NIFTY 50''), (''open'', JFloat 19500)],
      JObject [(''symbol'', JString ''RELIANCE''),
               (''meta'', JObject [(''companyName'', JString ''Reliance Industries Limited'')])],
      JObject [(''symbol'', JString ''TCS'')],
      JObject [(''symbol'', JString ''INFY''), (''meta'', JObject [(''isin'', JString ''INE009A01021'')])]]"

definition constituents_body :: jvalue where
  "constituents_body =
     JObject [(''name'', JString ''NIFTY 50''), (''data'', JArray constituents_rows)]"

definition constituents_session :: session where
  "constituents_session url h =
     (if url = ''https://www.nseindia.com/api/equity-stockIndices?index=NIFTY%2050''
      then Inr \<lparr>status_code = 200, body = [], json = Inr constituents_body\<rparr>
      else Inl RequestException)"

text \<open>
  The record that \<open>get_all_stocks\<close> makes of a row: its symbol, and its company
  name read through \<^verbatim>\<open>.get('meta', {}).get('companyName')\<close>.
\<close>

definition stock_record :: "jvalue \<Rightarrow> pydict \<Rightarrow> bool" where
  "stock_record stock d \<longleftrightarrow>
     (\<exists>s c. py_getitem stock ''symbol'' = Inr s
        \<and> bnd (py_get stock ''meta'' (JObject [])) (\<lambda>m. py_get m ''companyName'' JNull) = Inr c
        \<and> d = [(''stock_symbol'', s), (''company_name'', c)])"

section \<open>Properties of the operations\<close>

subsection \<open>Helper facts\<close>

lemma sequence_map_Inr:
  "(\<And>x. x \<in> set xs \<Longrightarrow> f x = Inr (g x)) \<Longrightarrow> sequence (map f xs) = Inr (map g xs)"
  by (induction xs) simp_all

lemma map_of_wf_dict:
  "wf_dict kvs \<Longrightarrow> (k, v) \<in> set kvs \<Longrightarrow> map_of kvs k = Some v"
  by (simp add: wf_dict_def)

subsection \<open>Listing the indices\<close>

text \<open>
  C7. When the body of the equity-master response is a mapping from category names to
  lists of symbols, \<open>get_indices\<close> returns the concatenation of those lists in the
  order of the mapping. The status code plays no part: the operation never reads it.
\<close>

theorem get_indices_flattens:
  assumes "client ''https://www.nseindia.com/api/equity-master'' HEADERS = Inr r"
    and "json r = Inr (categories cats)"
    and "wf_dict cats"
  shows "get_indices client = Inr (concat (map snd cats))"
proof -
  let ?kvs = "map (\<lambda>kv. (fst kv, JArray (snd kv))) cats"
  have wf: "wf_dict ?kvs"
    using assms(3) by (simp add: wf_dict_def comp_def)
  have "\<And>k. k \<in> set (map fst cats) \<Longrightarrow>
      bnd (py_getitem (JObject ?kvs) k) py_iter = Inr (the (map_of cats k))"
  proof -
    fix k assume "k \<in> set (map fst cats)"
    then obtain xs where kx: "(k, xs) \<in> set cats" by auto
    then have "(k, JArray xs) \<in> set ?kvs" by force
    then have "map_of ?kvs k = Some (JArray xs)"
      using wf by (rule map_of_wf_dict[rotated])
    moreover have "map_of cats k = Some xs"
      using assms(3) kx by (rule map_of_wf_dict)
    ultimately show "bnd (py_getitem (JObject ?kvs) k) py_iter = Inr (the (map_of cats k))"
      by simp
  qed
  then have "sequence (map (\<lambda>k. bnd (py_getitem (JObject ?kvs) k) py_iter) (map fst cats))
      = Inr (map (\<lambda>k. the (map_of cats k)) (map fst cats))"
    by (rule sequence_map_Inr)
  moreover have "map (\<lambda>k. the (map_of cats k)) (map fst cats) = map snd cats"
    using assms(3) by (auto simp: wf_dict_def)
  ultimately have "sequence (map (\<lambda>k. bnd (py_getitem (JObject ?kvs) k) py_iter) (map fst ?kvs))
      = Inr (map snd cats)"
    by (simp add: comp_def)
  then show ?thesis
    using assms(1,2) by (simp add: get_indices_def categories_def)
qed

text \<open>The body \<^verbatim>\<open>{"A": ["X","Y"], "B": ["Z"]}\<close> gives exactly X, Y, Z.\<close>

theorem get_indices_flattens_witness:
  "get_indices equity_master_session = Inr [JString ''X'', JString ''Y'', JString ''Z'']"
  using get_indices_flattens [of equity_master_session
      "\<lparr>status_code = 200, body = [], json = Inr (categories equity_master_body)\<rparr>"
      equity_master_body]
  by (simp add: equity_master_session_def equity_master_body_def wf_dict_def)

subsection \<open>Results without data\<close>

text \<open>
  C5. On a response whose status is not 200, \<open>get_stock_data\<close> and \<open>index_data\<close>
  return \<^verbatim>\<open>None\<close> and raise nothing (the body is not even decoded); and on a 200
  response whose decoded body is a mapping without the key \<^verbatim>\<open>info\<close>,
  \<open>get_stock_data\<close> returns \<^verbatim>\<open>None\<close> as well.
\<close>

theorem non_200_gives_None:
  "(c1 (stock_data_url symbol) HEADERS = Inr r1 \<and> status_code r1 \<noteq> 200
      \<longrightarrow> get_stock_data c1 symbol = Inr None)
   \<and> (c2 (index_data_url stock_index) HEADERS = Inr r2 \<and> status_code r2 \<noteq> 200
      \<longrightarrow> index_data c2 stock_index = Inr None)
   \<and> (c3 (stock_data_url symbol) HEADERS = Inr r3 \<and> status_code r3 = 200
        \<and> json r3 = Inr (JObject kvs) \<and> ''info'' \<notin> fst ` set kvs
      \<longrightarrow> get_stock_data c3 symbol = Inr None)"
proof (intro conjI impI)
  assume "c1 (stock_data_url symbol) HEADERS = Inr r1 \<and> status_code r1 \<noteq> 200"
  then show "get_stock_data c1 symbol = Inr None"
    by (simp add: get_stock_data_def)
next
  assume "c2 (index_data_url stock_index) HEADERS = Inr r2 \<and> status_code r2 \<noteq> 200"
  then show "index_data c2 stock_index = Inr None"
    by (simp add: index_data_def)
next
  assume a: "c3 (stock_data_url symbol) HEADERS = Inr r3 \<and> status_code r3 = 200
        \<and> json r3 = Inr (JObject kvs) \<and> ''info'' \<notin> fst ` set kvs"
  then have "map_of kvs ''info'' = None"
    by (simp add: map_of_eq_None_iff)
  with a show "get_stock_data c3 symbol = Inr None"
    by (simp add: get_stock_data_def)
qed

text \<open>A 404 answer for both operations, and a 200 answer without \<^verbatim>\<open>info\<close>.\<close>

theorem non_200_gives_None_witness:
  "get_stock_data (status_session 404 (Inl JSONDecodeError)) ''INFY'' = Inr None
   \<and> index_data (status_session 404 (Inl JSONDecodeError)) ''NIFTY 50'' = Inr None
   \<and> get_stock_data (status_session 200 (Inr (JObject [(''msg'', JString ''no data found'')]))) ''INFY'' = Inr None"
  using non_200_gives_None [where ?c1.0 = "status_session 404 (Inl JSONDecodeError)" and symbol = "''INFY''"
      and ?r1.0 = "\<lparr>status_code = 404, body = ''Resource not found'', json = Inl JSONDecodeError\<rparr>"
      and ?c2.0 = "status_session 404 (Inl JSONDecodeError)" and stock_index = "''NIFTY 50''"
      and ?r2.0 = "\<lparr>status_code = 404, body = ''Resource not found'', json = Inl JSONDecodeError\<rparr>"
      and ?c3.0 = "status_session 200 (Inr (JObject [(''msg'', JString ''no data found'')]))"
      and ?r3.0 = "\<lparr>status_code = 200, body = ''Resource not found'', json = Inr (JObject [(''msg'', JString ''no data found'')])\<rparr>"
      and kvs = "[(''msg'', JString ''no data found'')]"]
  by (simp add: status_session_def)

lemma sequence_Inr_iff: "sequence rs = Inr xs \<longleftrightarrow> rs = map Inr xs"
proof (induction rs arbitrary: xs)
  case Nil
  then show ?case by auto
next
  case (Cons r rs)
  show ?case
  proof (cases r)
    case (Inl e)
    then show ?thesis by (cases xs) auto
  next
    case (Inr x)
    show ?thesis
    proof (cases "sequence rs")
      case (Inl e)
      with Cons[of "tl xs"] Inr show ?thesis by (cases xs) auto
    next
      case r2: (Inr ys)
      with Cons[of ys] Inr show ?thesis by (cases xs) auto
    qed
  qed
qed

subsection \<open>Listing the constituents of an index\<close>

lemma upper_char_idem: "upper_char (upper_char c) = upper_char c"
  by (simp add: upper_char_def)

lemma upper_idem: "upper (upper s) = upper s"
  by (simp add: upper_def upper_char_idem)

lemma all_stocks_row_upper: "all_stocks_row (upper index) = all_stocks_row index"
  by (rule ext) (simp add: all_stocks_row_def upper_idem)

lemma get_all_stocks_upper: "get_all_stocks client (upper index) = get_all_stocks client index"
  by (simp add: get_all_stocks_def all_stocks_url_def upper_idem all_stocks_row_upper)

lemma all_stocks_row_None:
  "all_stocks_row index stock = Inr None \<longleftrightarrow> py_getitem stock ''symbol'' = Inr (JString (upper index))"
  by (cases "py_getitem stock ''symbol''";
      cases "bnd (py_get stock ''meta'' (JObject [])) (\<lambda>m. py_get m ''companyName'' JNull)")
     (auto simp: all_stocks_row_def)

lemma all_stocks_row_Some:
  assumes "all_stocks_row index stock = Inr (Some d)"
  shows "\<exists>s c. py_getitem stock ''symbol'' = Inr s \<and> s \<noteq> JString (upper index)
           \<and> bnd (py_get stock ''meta'' (JObject [])) (\<lambda>m. py_get m ''companyName'' JNull) = Inr c
           \<and> d = [(''stock_symbol'', s), (''company_name'', c)]"
  using assms
  by (cases "py_getitem stock ''symbol''";
      cases "bnd (py_get stock ''meta'' (JObject [])) (\<lambda>m. py_get m ''companyName'' JNull)")
     (auto simp: all_stocks_row_def split: if_splits)

lemma all_stocks_rows_filter:
  "map (all_stocks_row index) rows = map Inr rs \<Longrightarrow>
   list_all2 stock_record
     (filter (\<lambda>stock. py_getitem stock ''symbol'' \<noteq> Inr (JString (upper index))) rows)
     (List.map_filter id rs)"
proof (induction rows arbitrary: rs)
  case Nil
  then show ?case by (simp add: List.map_filter_simps)
next
  case (Cons stock rows)
  then obtain x xs where rs: "rs = x # xs" and x: "all_stocks_row index stock = Inr x"
    and xs: "map (all_stocks_row index) rows = map Inr xs"
    by (cases rs) auto
  have IH: "list_all2 stock_record
     (filter (\<lambda>stock. py_getitem stock ''symbol'' \<noteq> Inr (JString (upper index))) rows)
     (List.map_filter id xs)"
    using Cons.IH xs by blast
  show ?case
  proof (cases x)
    case None
    with x have "py_getitem stock ''symbol'' = Inr (JString (upper index))"
      by (simp add: all_stocks_row_None)
    with IH rs None show ?thesis by (simp add: List.map_filter_simps id_def)
  next
    case (Some d)
    with x all_stocks_row_Some[of index stock d]
    have "py_getitem stock ''symbol'' \<noteq> Inr (JString (upper index))" and "stock_record stock d"
      by (auto simp: stock_record_def)
    with IH rs Some show ?thesis by (simp add: List.map_filter_simps id_def)
  qed
qed

text \<open>
  C8. Whenever \<open>get_all_stocks\<close> returns, its result has one record (symbol and
  company name) for each row of the response, in order, except the rows whose symbol is
  the upper-case index name; the request is made with the upper-case name, quoted, so
  the index name is accepted in any case.
\<close>

theorem get_all_stocks_rows:
  assumes "client (all_stocks_url index) HEADERS = Inr r"
    and "json r = Inr j"
    and "py_getitem j ''data'' = Inr data"
    and "py_iter data = Inr rows"
    and "get_all_stocks client index = Inr results"
  shows "list_all2 stock_record
           (filter (\<lambda>stock. py_getitem stock ''symbol'' \<noteq> Inr (JString (upper index))) rows)
           results
         \<and> all_stocks_url index
             = ''https://www.nseindia.com/api/equity-stockIndices?index='' @ quote (upper index)
         \<and> get_all_stocks client (upper index) = Inr results"
proof -
  from assms obtain rs where rs: "sequence (map (all_stocks_row index) rows) = Inr rs"
    and res: "results = List.map_filter id rs"
    by (cases "sequence (map (all_stocks_row index) rows)") (auto simp: get_all_stocks_def)
  from rs have "map (all_stocks_row index) rows = map Inr rs"
    by (simp add: sequence_Inr_iff)
  then have "list_all2 stock_record
           (filter (\<lambda>stock. py_getitem stock ''symbol'' \<noteq> Inr (JString (upper index))) rows)
           results"
    unfolding res by (rule all_stocks_rows_filter)
  then show ?thesis
    using assms(5) by (simp add: get_all_stocks_upper all_stocks_url_def)
qed

lemma nifty_url: "all_stocks_url ''nifty 50'' = ''https://www.nseindia.com/api/equity-stockIndices?index=NIFTY%2050''"
  by (simp add: all_stocks_url_def upper_def upper_char_def quote_def quote_char_def always_safe_def hex_digit_def)

lemma nifty_stocks: "get_all_stocks constituents_session ''nifty 50'' =
     Inr [[(''stock_symbol'', JString ''RELIANCE''), (''company_name'', JString ''Reliance Industries Limited'')],
          [(''stock_symbol'', JString ''TCS''), (''company_name'', JNull)],
          [(''stock_symbol'', JString ''INFY''), (''company_name'', JNull)]]"
  by (simp add: get_all_stocks_def nifty_url constituents_session_def constituents_body_def
      constituents_rows_def all_stocks_row_def upper_def upper_char_def List.map_filter_simps)


text \<open>
  The index name in lower case: the request goes to the upper-case, quoted name, and the
  row of the index itself is left out.
\<close>

theorem get_all_stocks_rows_witness:
  "list_all2 stock_record
     (filter (\<lambda>stock. py_getitem stock ''symbol'' \<noteq> Inr (JString (upper ''nifty 50''))) constituents_rows)
     [[(''stock_symbol'', JString ''RELIANCE''), (''company_name'', JString ''Reliance Industries Limited'')],
      [(''stock_symbol'', JString ''TCS''), (''company_name'', JNull)],
      [(''stock_symbol'', JString ''INFY''), (''company_name'', JNull)]]
   \<and> all_stocks_url ''nifty 50''
       = ''https://www.nseindia.com/api/equity-stockIndices?index='' @ quote (upper ''nifty 50'')
   \<and> get_all_stocks constituents_session (upper ''nifty 50'') =
       Inr [[(''stock_symbol'', JString ''RELIANCE''), (''company_name'', JString ''Reliance Industries Limited'')],
            [(''stock_symbol'', JString ''TCS''), (''company_name'', JNull)],
            [(''stock_symbol'', JString ''INFY''), (''company_name'', JNull)]]"
  using get_all_stocks_rows [of constituents_session "''nifty 50''"
        "\<lparr>status_code = 200, body = [], json = Inr constituents_body\<rparr>" constituents_body
        "JArray constituents_rows" constituents_rows
        "[[(''stock_symbol'', JString ''RELIANCE''), (''company_name'', JString ''Reliance Industries Limited'')],
            [(''stock_symbol'', JString ''TCS''), (''company_name'', JNull)],
            [(''stock_symbol'', JString ''INFY''), (''company_name'', JNull)]]"]
    nifty_url nifty_stocks
  by (simp add: constituents_session_def constituents_body_def)

end
